theory Spec2Isabelle
  imports Main
begin

section \<open>Text\<close>

text \<open>
  Python strings are modelled as \<open>string\<close>; every character stands for the code
  point of the same number (0 to 255). What \<open>print\<close> and the f-strings of
  \<^verbatim>\<open>cpremote.py\<close> do to integers, booleans and \<open>None\<close> is written out here.
\<close>

definition digit_char :: "nat \<Rightarrow> char" where
  "digit_char d = ''0123456789abcdef'' ! d"

fun str_nat :: "nat \<Rightarrow> string" where
  "str_nat n = (if n < 10 then [digit_char n] else str_nat (n div 10) @ [digit_char (n mod 10)])"

declare str_nat.simps [simp del]

definition str_int :: "int \<Rightarrow> string" where
  "str_int i = (if i < 0 then CHR ''-'' # str_nat (nat (- i)) else str_nat (nat i))"

definition str_bool :: "bool \<Rightarrow> string" where
  "str_bool b = (if b then ''True'' else ''False'')"

definition str_optional :: "string option \<Rightarrow> string" where
  "str_optional s = (case s of None \<Rightarrow> ''None'' | Some v \<Rightarrow> v)"

definition endswith :: "string \<Rightarrow> string \<Rightarrow> bool" where
  "endswith s suffix =
     (length suffix \<le> length s \<and> drop (length s - length suffix) s = suffix)"

fun join :: "string \<Rightarrow> string list \<Rightarrow> string" where
  "join sep [] = []"
| "join sep [x] = x"
| "join sep (x # y # ys) = x @ sep @ join sep (y # ys)"

section \<open>JSON documents and \<open>json.dumps(obj, indent=4)\<close>\<close>

text \<open>
  The value \<open>json.loads\<close> returns. Numbers are the integers: a number with a fraction
  or an exponent decodes to a Python float, whose printing is outside this model. An
  object is the list of its members in insertion order, as the Python \<open>dict\<close> holds them.
\<close>

datatype json =
    JNull
  | JBool bool
  | JInt int
  | JStr string
  | JArr "json list"
  | JObj "(string \<times> json) list"

text \<open>
  The encoder escapes a string as \<open>json.encoder.py_encode_basestring_ascii\<close> does:
  the quote, the backslash and the named control characters by a backslash sequence,
  every other character outside the range from space to tilde as \<open>\u00XX\<close>.
\<close>

definition hex4 :: "nat \<Rightarrow> string" where
  "hex4 n = [digit_char (n div 4096 mod 16), digit_char (n div 256 mod 16),
             digit_char (n div 16 mod 16), digit_char (n mod 16)]"

definition escape_char :: "char \<Rightarrow> string" where
  "escape_char c =
     (if c = CHR 0x22 then [CHR 0x5C, CHR 0x22]
      else if c = CHR 0x5C then [CHR 0x5C, CHR 0x5C]
      else if c = CHR 0x08 then [CHR 0x5C, CHR ''b'']
      else if c = CHR 0x0C then [CHR 0x5C, CHR ''f'']
      else if c = CHR 0x0A then [CHR 0x5C, CHR ''n'']
      else if c = CHR 0x0D then [CHR 0x5C, CHR ''r'']
      else if c = CHR 0x09 then [CHR 0x5C, CHR ''t'']
      else if (of_char c :: nat) < 32 \<or> 126 < (of_char c :: nat)
        then [CHR 0x5C, CHR ''u''] @ hex4 (of_char c)
      else [c])"

definition encode_basestring_ascii :: "string \<Rightarrow> string" where
  "encode_basestring_ascii s = [CHR 0x22] @ concat (map escape_char s) @ [CHR 0x22]"

definition newline_indent :: "nat \<Rightarrow> nat \<Rightarrow> string" where
  "newline_indent indent level = CHR 0x0A # replicate (indent * level) CHR '' ''"

text \<open>
  \<open>iterencode indent level obj\<close> is the text of \<open>obj\<close> met at nesting depth \<open>level\<close>;
  with an indent the item separator is a comma and the key separator a colon and a space.
\<close>

fun iterencode :: "nat \<Rightarrow> nat \<Rightarrow> json \<Rightarrow> string"
  and iterencode_list :: "nat \<Rightarrow> nat \<Rightarrow> json list \<Rightarrow> string list"
  and iterencode_dict :: "nat \<Rightarrow> nat \<Rightarrow> (string \<times> json) list \<Rightarrow> string list"
where
  "iterencode indent level JNull = ''null''"
| "iterencode indent level (JBool b) = (if b then ''true'' else ''false'')"
| "iterencode indent level (JInt i) = str_int i"
| "iterencode indent level (JStr s) = encode_basestring_ascii s"
| "iterencode indent level (JArr lst) =
     (if lst = [] then ''[]''
      else ''['' @ newline_indent indent (Suc level)
           @ join ('','' @ newline_indent indent (Suc level))
                  (iterencode_list indent (Suc level) lst)
           @ newline_indent indent level @ '']'')"
| "iterencode indent level (JObj dct) =
     (if dct = [] then ''{}''
      else ''{'' @ newline_indent indent (Suc level)
           @ join ('','' @ newline_indent indent (Suc level))
                  (iterencode_dict indent (Suc level) dct)
           @ newline_indent indent level @ ''}'')"
| "iterencode_list indent level [] = []"
| "iterencode_list indent level (v # vs) =
     iterencode indent level v # iterencode_list indent level vs"
| "iterencode_dict indent level [] = []"
| "iterencode_dict indent level (kv # kvs) =
     (encode_basestring_ascii (fst kv) @ '': '' @ iterencode indent level (snd kv))
       # iterencode_dict indent level kvs"

definition json_dumps :: "json \<Rightarrow> nat \<Rightarrow> string" where
  "json_dumps obj indent = iterencode indent 0 obj"

section \<open>Broken-down time and \<open>time.strftime\<close>\<close>

record struct_time =
  tm_year :: int
  tm_mon :: int
  tm_mday :: int
  tm_hour :: int
  tm_min :: int

text \<open>
  The month names of the C locale. \<open>time.localtime\<close> only yields months from 1 to 12;
  any other number is shown as a question mark.
\<close>

definition month_abbr :: "int \<Rightarrow> string" where
  "month_abbr m =
     (if 1 \<le> m \<and> m \<le> 12
      then [''Jan'', ''Feb'', ''Mar'', ''Apr'', ''May'', ''Jun'',
            ''Jul'', ''Aug'', ''Sep'', ''Oct'', ''Nov'', ''Dec''] ! nat (m - 1)
      else ''?'')"

definition pad2 :: "int \<Rightarrow> string" where
  "pad2 n = (if 0 \<le> n \<and> n < 10 then CHR ''0'' # str_int n else str_int n)"

definition directive :: "char \<Rightarrow> struct_time \<Rightarrow> string" where
  "directive d t =
     (if d = CHR ''b'' then month_abbr (tm_mon t)
      else if d = CHR ''d'' then pad2 (tm_mday t)
      else if d = CHR ''H'' then pad2 (tm_hour t)
      else if d = CHR ''M'' then pad2 (tm_min t)
      else if d = CHR ''Y'' then str_int (tm_year t)
      else if d = CHR ''%'' then ''%''
      else [CHR ''%'', d])"

fun strftime :: "string \<Rightarrow> struct_time \<Rightarrow> string" where
  "strftime [] t = []"
| "strftime [c] t = [c]"
| "strftime (c # d # fmt) t =
     (if c = CHR ''%'' then directive d t @ strftime fmt t
      else c # strftime (d # fmt) t)"

section \<open>The HTTP transport and the other collaborators\<close>

text \<open>
  The keyword arguments of one call of \<open>requests.request\<close>. \<open>auth\<close> is the user
  name and password of \<open>HTTPBasicAuth\<close>, \<open>timeout\<close> is in seconds, \<open>verb\<close> is the first
  argument (the HTTP verb).
\<close>

record request =
  verb :: string
  url :: string
  auth :: "(string \<times> string) option"
  headers :: "(string \<times> string) list"
  data :: "string option"
  timeout :: "nat option"

text \<open>
  The directory listing of the device: what \<open>response.json()\<close> yields for a body that
  follows the schema of the device's file API, with integer block counts and sizes.
\<close>

record entry =
  name :: string
  directory :: bool
  file_size :: int
  modified_ns :: int

record listing =
  files :: "entry list"
  free :: int
  total :: int
  block_size :: int
  writable :: bool

text \<open>
  A response carries its status code and its body (\<open>response.text\<close>). \<open>body_json\<close> is what
  \<open>json.loads(response.text)\<close> returns and \<open>body_listing\<close> what \<open>response.json()\<close>
  returns for a listing; each is \<open>None\<close> when the decoder raises.
\<close>

record response =
  status_code :: int
  response_text :: string
  body_json :: "json option"
  body_listing :: "listing option"

datatype transport_error = ConnectionError | ConnectTimeout | ReadTimeout

datatype exn =
    RequestException transport_error
  | JSONDecodeError
  | OSError
  | OverflowError

text \<open>
  Everything the program asks of its surroundings:
  \<^item> \<open>requests_request\<close>: the answer to a request, or the failure to get one;
  \<^item> \<open>localtime_now\<close>: the result of the \<open>i\<close>-th call of \<open>time.localtime()\<close>;
  \<^item> \<open>localtime_of_ns\<close>: \<open>time.localtime(ns / 1000000000)\<close>, in the local time zone;
  \<^item> \<open>float_str\<close>: the text of the float \<open>a / b\<close> where this theory does not compute it;
  \<^item> \<open>read_text\<close>: opening a local file for reading and reading all of it;
  \<^item> \<open>write_text\<close>: opening a local file for writing and writing a text (\<open>None\<close>: done);
  \<^item> \<open>help_text\<close>: what \<open>parser.print_help()\<close> prints.
\<close>

record env =
  requests_request :: "request \<Rightarrow> transport_error + response"
  localtime_now :: "nat \<Rightarrow> struct_time"
  localtime_of_ns :: "int \<Rightarrow> exn + struct_time"
  float_str :: "int \<Rightarrow> int \<Rightarrow> exn + string"
  read_text :: "string \<Rightarrow> exn + string"
  write_text :: "string \<Rightarrow> string \<Rightarrow> exn option"
  help_text :: string

text \<open>
  What one run does that can be observed: the arguments of each \<open>print\<close>, the requests
  issued, the local files written, the URLs handed to the web browser, and the exception
  that ended the run, if one did.
\<close>

record outcome =
  printed :: "string list"
  sent :: "request list"
  written :: "(string \<times> string) list"
  opened :: "string list"
  raised :: "exn option"

definition print :: "string list \<Rightarrow> outcome" where
  "print lines = \<lparr>printed = lines, sent = [], written = [], opened = [], raised = None\<rparr>"

definition raise :: "string list \<Rightarrow> exn \<Rightarrow> outcome" where
  "raise lines x = \<lparr>printed = lines, sent = [], written = [], opened = [], raised = Some x\<rparr>"

text \<open>
  One call of \<open>requests.request\<close>: the request is issued; a transport failure is raised
  where the call stands, otherwise the rest of the function runs on the response.
\<close>

definition request_then :: "env \<Rightarrow> request \<Rightarrow> (response \<Rightarrow> outcome) \<Rightarrow> outcome" where
  "request_then e q rest =
     (case requests_request e q of
        Inl err \<Rightarrow> (raise [] (RequestException err))\<lparr>sent := [q]\<rparr>
      | Inr response \<Rightarrow> (rest response)\<lparr>sent := [q]\<rparr>)"

text \<open>The module's globals, once \<open>main\<close> has found a host and a password.\<close>

record globals =
  cpremote_host :: string
  cpremote_password :: string
  cpremote_units :: "string option"

definition unknown :: "response \<Rightarrow> string" where
  "unknown response = ''Unknown '' @ str_int (status_code response) @ '': '' @ response_text response"

section \<open>The operations\<close>

definition get :: "env \<Rightarrow> globals \<Rightarrow> string \<Rightarrow> string option \<Rightarrow> outcome" where
  "get e g src dst =
     (let basic = Some ('''', cpremote_password g) in
      request_then e
        \<lparr>verb = ''GET'', url = cpremote_host g @ ''/fs/'' @ src, auth = basic,
         headers = [], data = None, timeout = None\<rparr>
        (\<lambda>response.
           if status_code response = 200 then
             (case dst of
                None \<Rightarrow> print [response_text response]
              | Some file \<Rightarrow>
                  (case write_text e file (response_text response) of
                     Some x \<Rightarrow> raise [] x
                   | None \<Rightarrow> (print [''File exists and file returned''])
                                \<lparr>written := [(file, response_text response)]\<rparr>))
           else if status_code response = 401 then print [''Incorrect password'']
           else if status_code response = 403 then print [''No CIRCUITPY_WEB_API_PASSWORD set'']
           else if status_code response = 404 then print [''Missing file'']
           else print [unknown response]))"

definition info :: "env \<Rightarrow> globals \<Rightarrow> string \<Rightarrow> outcome" where
  "info e g path =
     request_then e
       \<lparr>verb = ''GET'', url = cpremote_host g @ ''/cp/'' @ path @ ''.json'', auth = None,
        headers = [], data = None, timeout = None\<rparr>
       (\<lambda>response.
          case body_json response of
            None \<Rightarrow> raise [] JSONDecodeError
          | Some obj \<Rightarrow> print [json_dumps obj 4])"

text \<open>
  The text of the float \<open>a / b\<close>. A whole quotient below \<open>2 ^ 53\<close> is a float without
  rounding, which Python prints with \<open>.0\<close> after its digits; any other quotient is left
  to \<open>float_str\<close>.
\<close>

definition str_truediv :: "env \<Rightarrow> int \<Rightarrow> int \<Rightarrow> exn + string" where
  "str_truediv e a b =
     (if b \<noteq> 0 \<and> b dvd a \<and> \<bar>a div b\<bar> < 2 ^ 53
      then Inr (str_int (a div b) @ ''.0'')
      else float_str e a b)"

text \<open>The body of the loop of \<open>ls\<close>, for the \<open>i\<close>-th entry: the line it prints.\<close>

definition format_file :: "env \<Rightarrow> nat \<Rightarrow> entry \<Rightarrow> exn + string" where
  "format_file e i file =
     (let directory = (if directory file then ''/'' else '''');
          current_time = localtime_now e i
      in case localtime_of_ns e (modified_ns file) of
           Inl x \<Rightarrow> Inl x
         | Inr t \<Rightarrow>
             (let modified_time =
                    (if tm_year t = tm_year current_time
                     then strftime ''%b %d %H:%M'' t
                     else strftime ''%b %d  %Y'' t);
                  file_size = (if directory = '''' then str_int (file_size file) else '''')
              in Inr (file_size @ [CHR 0x09] @ modified_time @ [CHR 0x09]
                      @ name file @ directory)))"

text \<open>The loop: the lines printed, and the exception that stopped it, if one did.\<close>

fun print_files :: "env \<Rightarrow> nat \<Rightarrow> entry list \<Rightarrow> string list \<times> exn option" where
  "print_files e i [] = ([], None)"
| "print_files e i (file # rest) =
     (case format_file e i file of
        Inl x \<Rightarrow> ([], Some x)
      | Inr line \<Rightarrow>
          (case print_files e (Suc i) rest of (lines, stop) \<Rightarrow> (line # lines, stop)))"

text \<open>The two converted counts, as they appear in the last line.\<close>

definition convert :: "env \<Rightarrow> string option \<Rightarrow> int \<Rightarrow> int \<Rightarrow> int \<Rightarrow> exn + string \<times> string" where
  "convert e units free0 total0 block_size0 =
     (if units = Some ''b''
        then Inr (str_int (free0 * block_size0), str_int (total0 * block_size0))
      else if units = Some ''kb''
        then (case str_truediv e (free0 * block_size0) 1024 of
                Inl x \<Rightarrow> Inl x
              | Inr f \<Rightarrow>
                  (case str_truediv e (total0 * block_size0) 1024 of
                     Inl x \<Rightarrow> Inl x
                   | Inr t \<Rightarrow> Inr (f, t)))
      else Inr (str_int free0, str_int total0))"

definition summary :: "env \<Rightarrow> string option \<Rightarrow> listing \<Rightarrow> exn + string" where
  "summary e units d =
     (case convert e units (free d) (total d) (block_size d) of
        Inl x \<Rightarrow> Inl x
      | Inr (f, t) \<Rightarrow>
          Inr (''free: '' @ f @ '' '' @ str_optional units
               @ '', total: '' @ t @ '' '' @ str_optional units
               @ '', block size: '' @ str_int (block_size d)
               @ '', writable: '' @ str_bool (writable d)))"

definition ls :: "env \<Rightarrow> globals \<Rightarrow> string \<Rightarrow> outcome" where
  "ls e g directory0 =
     (let directory = (if \<not> endswith directory0 ''/'' then directory0 @ ''/'' else directory0);
          basic = Some ('''', cpremote_password g);
          accept = [(''Accept'', ''application/json'')]
      in request_then e
           \<lparr>verb = ''GET'', url = cpremote_host g @ ''/fs/'' @ directory, auth = basic,
            headers = accept, data = None, timeout = Some 5\<rparr>
           (\<lambda>response.
              if status_code response = 200 then
                (case body_listing response of
                   None \<Rightarrow> raise [] JSONDecodeError
                 | Some d \<Rightarrow>
                     (let shown = (if directory = '''' then ''/'' else directory);
                          head = [''Host '' @ cpremote_host g @ '', directory '' @ shown,
                                  ''Size'' @ [CHR 0x09] @ ''Modified'' @ [CHR 0x09] @ ''Name'']
                      in case print_files e 0 (files d) of
                           (lines, Some x) \<Rightarrow> raise (head @ lines) x
                         | (lines, None) \<Rightarrow>
                             (case summary e (cpremote_units g) d of
                                Inl x \<Rightarrow> raise (head @ lines) x
                              | Inr line \<Rightarrow> print (head @ lines @ [line]))))
              else if status_code response = 401 then print [''Incorrect password'']
              else if status_code response = 403 then print [''No CIRCUITPY_WEB_API_PASSWORD set'']
              else if status_code response = 404 then print [''Missing directory'']
              else print [unknown response]))"

definition mkdir :: "env \<Rightarrow> globals \<Rightarrow> string \<Rightarrow> outcome" where
  "mkdir e g directory0 =
     (let directory = (if \<not> endswith directory0 ''/'' then directory0 @ ''/'' else directory0);
          basic = Some ('''', cpremote_password g)
      in request_then e
           \<lparr>verb = ''PUT'', url = cpremote_host g @ ''/fs/'' @ directory, auth = basic,
            headers = [], data = None, timeout = None\<rparr>
           (\<lambda>response.
              if status_code response = 201 then print [''Directory created'']
              else if status_code response = 204 then print [''Directory or file exists'']
              else if status_code response = 401 then print [''Incorrect password'']
              else if status_code response = 403 then print [''No CIRCUITPY_WEB_API_PASSWORD set'']
              else if status_code response = 404 then print [''Missing parent directory'']
              else if status_code response = 409
                then print [''USB is active and preventing file system modification'']
              else if status_code response = 500 then print [''Other, unhandled error'']
              else print [unknown response]))"

definition mv :: "env \<Rightarrow> globals \<Rightarrow> string \<Rightarrow> string \<Rightarrow> outcome" where
  "mv e g src dst =
     (let basic = Some ('''', cpremote_password g);
          destination = [(''X-Destination'', ''/fs/'' @ dst)]
      in request_then e
           \<lparr>verb = ''MOVE'', url = cpremote_host g @ ''/fs/'' @ src, auth = basic,
            headers = destination, data = None, timeout = None\<rparr>
           (\<lambda>response.
              if status_code response = 201 then print [''File/directory renamed'']
              else if status_code response = 401 then print [''Incorrect password'']
              else if status_code response = 403 then print [''No CIRCUITPY_WEB_API_PASSWORD set'']
              else if status_code response = 404
                then print [''Source file/directory not found or destination path is missing'']
              else if status_code response = 409
                then print [''USB is active and preventing file system modification'']
              else if status_code response = 412
                then print [''Precondition Failed - The destination path is already in use'']
              else print [unknown response]))"

definition put :: "env \<Rightarrow> globals \<Rightarrow> string \<Rightarrow> string option \<Rightarrow> outcome" where
  "put e g src dst0 =
     (let dst = (case dst0 of None \<Rightarrow> src | Some d \<Rightarrow> d);
          basic = Some ('''', cpremote_password g)
      in case read_text e src of
           Inl x \<Rightarrow> raise [] x
         | Inr content \<Rightarrow>
             request_then e
               \<lparr>verb = ''PUT'', url = cpremote_host g @ ''/fs/'' @ dst, auth = basic,
                headers = [], data = Some content, timeout = None\<rparr>
               (\<lambda>response.
                  if status_code response = 201 then print [''File created and saved'']
                  else if status_code response = 204 then print [''File existed and overwritten'']
                  else if status_code response = 401 then print [''Incorrect password'']
                  else if status_code response = 403
                    then print [''No CIRCUITPY_WEB_API_PASSWORD set'']
                  else if status_code response = 404 then print [''Missing parent directory'']
                  else if status_code response = 409
                    then print [''USB is active and preventing file system modification'']
                  else if status_code response = 413
                    then print [''Expect header not sent and file is too large'']
                  else if status_code response = 417
                    then print [''Expect header sent and file is too large'']
                  else if status_code response = 500 then print [''Other, unhandled error'']
                  else print [unknown response]))"

definition repl :: "env \<Rightarrow> globals \<Rightarrow> outcome" where
  "repl e g = (print [])\<lparr>opened := [cpremote_host g @ ''/cp/serial/'']\<rparr>"

definition rm :: "env \<Rightarrow> globals \<Rightarrow> string \<Rightarrow> outcome" where
  "rm e g file =
     (let basic = Some ('''', cpremote_password g)
      in request_then e
           \<lparr>verb = ''DELETE'', url = cpremote_host g @ ''/fs/'' @ file, auth = basic,
            headers = [], data = None, timeout = None\<rparr>
           (\<lambda>response.
              if status_code response = 204 then print [''File existed and deleted'']
              else if status_code response = 401 then print [''Incorrect password'']
              else if status_code response = 403 then print [''No CIRCUITPY_WEB_API_PASSWORD set'']
              else if status_code response = 404 then print [''File not found'']
              else if status_code response = 409
                then print [''USB is active and preventing file system modification'']
              else print [unknown response]))"

definition rmdir :: "env \<Rightarrow> globals \<Rightarrow> string \<Rightarrow> outcome" where
  "rmdir e g directory0 =
     (let directory = (if \<not> endswith directory0 ''/'' then directory0 @ ''/'' else directory0);
          basic = Some ('''', cpremote_password g)
      in request_then e
           \<lparr>verb = ''DELETE'', url = cpremote_host g @ ''/fs/'' @ directory, auth = basic,
            headers = [], data = None, timeout = None\<rparr>
           (\<lambda>response.
              if status_code response = 204 then print [''Directory and its contents deleted'']
              else if status_code response = 401 then print [''Incorrect password'']
              else if status_code response = 403 then print [''No CIRCUITPY_WEB_API_PASSWORD set'']
              else if status_code response = 404 then print [''No directory'']
              else if status_code response = 409
                then print [''USB is active and preventing file system modification'']
              else print [unknown response]))"

section \<open>The entry point\<close>

text \<open>
  The variables \<open>os.getenv\<close> reads once the \<^verbatim>\<open>.env\<close> file is loaded, and the
  namespace \<open>parser.parse_args()\<close> returns: the three flags and the subcommand with its
  positional arguments (\<open>None\<close>: no subcommand was given).
\<close>

record environ =
  CPREMOTE_HOST :: "string option"
  CPREMOTE_PASSWORD :: "string option"
  CPREMOTE_UNITS :: "string option"

datatype command =
    Devices
  | Diskinfo
  | Get string "string option"
  | Ls string
  | Mkdir string
  | Mv string string
  | Put string "string option"
  | Repl
  | Rm string
  | Rmdir string
  | Version

record args =
  host :: "string option"
  password :: "string option"
  units :: "string option"
  command :: "command option"

text \<open>The chain of comparisons on \<open>args.command\<close> at the end of \<open>main\<close>.\<close>

fun dispatch :: "env \<Rightarrow> globals \<Rightarrow> command option \<Rightarrow> outcome" where
  "dispatch e g (Some Devices) = info e g ''devices''"
| "dispatch e g (Some Diskinfo) = info e g ''diskinfo''"
| "dispatch e g (Some (Get src dst)) = get e g src dst"
| "dispatch e g (Some (Ls dir)) = ls e g dir"
| "dispatch e g (Some (Mkdir dir)) = mkdir e g dir"
| "dispatch e g (Some (Mv src dst)) = mv e g src dst"
| "dispatch e g (Some (Put src dst)) = put e g src dst"
| "dispatch e g (Some Repl) = repl e g"
| "dispatch e g (Some (Rm file)) = rm e g file"
| "dispatch e g (Some (Rmdir dir)) = rmdir e g dir"
| "dispatch e g (Some Version) = info e g ''version''"
| "dispatch e g None = print [help_text e]"

definition override :: "string option \<Rightarrow> string option \<Rightarrow> string option" where
  "override flag current = (if flag \<noteq> None then flag else current)"

definition main :: "env \<Rightarrow> environ \<Rightarrow> args \<Rightarrow> outcome" where
  "main e os a =
     (let h = override (host a) (CPREMOTE_HOST os);
          p = override (password a) (CPREMOTE_PASSWORD os);
          u = override (units a) (CPREMOTE_UNITS os)
      in case h of
           None \<Rightarrow> print [''Error: CPREMOTE_HOST is not set'']
         | Some h' \<Rightarrow>
             (case p of
                None \<Rightarrow> print [''Error: CPREMOTE_PASSWORD is not set'']
              | Some p' \<Rightarrow>
                  dispatch e
                    \<lparr>cpremote_host = h', cpremote_password = p', cpremote_units = u\<rparr>
                    (command a)))"

section \<open>Concrete surroundings\<close>

text \<open>
  Surroundings on which the operations are evaluated below: a device that gives the same
  answer to every request, a clock that stands at 4 November 2026, 09:30, a time zone
  (UTC) known at two instants, local files that can all be read and written.
\<close>

definition clock :: "nat \<Rightarrow> struct_time" where
  "clock i = \<lparr>tm_year = 2026, tm_mon = 11, tm_mday = 4, tm_hour = 9, tm_min = 30\<rparr>"

definition utc :: "int \<Rightarrow> exn + struct_time" where
  "utc ns =
     (if ns = 0
        then Inr \<lparr>tm_year = 1970, tm_mon = 1, tm_mday = 1, tm_hour = 0, tm_min = 0\<rparr>
      else if ns = 1772719620000000000
        then Inr \<lparr>tm_year = 2026, tm_mon = 3, tm_mday = 5, tm_hour = 14, tm_min = 7\<rparr>
      else Inl OverflowError)"

definition no_float :: "int \<Rightarrow> int \<Rightarrow> exn + string" where
  "no_float a b = Inl OverflowError"

definition readable :: "string \<Rightarrow> exn + string" where
  "readable path = Inr ''print(1)''"

definition unreadable :: "string \<Rightarrow> exn + string" where
  "unreadable path = Inl OSError"

definition writable_file :: "string \<Rightarrow> string \<Rightarrow> exn option" where
  "writable_file path content = None"

definition always :: "transport_error + response \<Rightarrow> request \<Rightarrow> transport_error + response" where
  "always answer q = answer"

definition device :: "transport_error + response \<Rightarrow> env" where
  "device answer =
     \<lparr>requests_request = always answer, localtime_now = clock, localtime_of_ns = utc,
      float_str = no_float, read_text = readable, write_text = writable_file,
      help_text = ''usage: cpremote''\<rparr>"

definition device_no_file :: "transport_error + response \<Rightarrow> env" where
  "device_no_file answer = (device answer)\<lparr>read_text := unreadable\<rparr>"

definition status :: "int \<Rightarrow> string \<Rightarrow> response" where
  "status code body =
     \<lparr>status_code = code, response_text = body, body_json = None, body_listing = None\<rparr>"

definition circuitpy :: globals where
  "circuitpy =
     \<lparr>cpremote_host = ''http://circuitpython.local'', cpremote_password = ''passw0rd'',
      cpremote_units = None\<rparr>"

definition root_listing :: listing where
  "root_listing =
     \<lparr>files =
        [\<lparr>name = ''code.py'', directory = False, file_size = 22,
          modified_ns = 1772719620000000000\<rparr>,
         \<lparr>name = ''lib'', directory = True, file_size = 0, modified_ns = 0\<rparr>],
      free = 100, total = 200, block_size = 512, writable = True\<rparr>"

definition version_json :: json where
  "version_json =
     JObj [(''web_api_version'', JInt 4), (''hostname'', JStr ''cpy-f57ce8''),
           (''ble'', JBool False), (''ips'', JArr [JStr ''10.0.0.5''])]"

definition listing_response :: response where
  "listing_response =
     \<lparr>status_code = 200, response_text = ''{...}'', body_json = None,
      body_listing = Some root_listing\<rparr>"

definition version_response :: response where
  "version_response =
     \<lparr>status_code = 200, response_text = ''{...}'', body_json = Some version_json,
      body_listing = None\<rparr>"

definition configured :: environ where
  "configured =
     \<lparr>CPREMOTE_HOST = Some ''http://circuitpython.local'',
      CPREMOTE_PASSWORD = Some ''passw0rd'', CPREMOTE_UNITS = None\<rparr>"

definition invoke :: "command \<Rightarrow> args" where
  "invoke c = \<lparr>host = None, password = None, units = None, command = Some c\<rparr>"

section \<open>Classes of subcommands\<close>

text \<open>
  The subcommands that work on the remote file system (all but the three info queries
  and the REPL), and the condition that the local file a subcommand reads before it
  issues its request can be read; only \<open>put\<close> reads one.
\<close>

fun filesystem_command :: "command \<Rightarrow> bool" where
  "filesystem_command Devices = False"
| "filesystem_command Diskinfo = False"
| "filesystem_command Version = False"
| "filesystem_command Repl = False"
| "filesystem_command c = True"

fun source_read :: "env \<Rightarrow> command \<Rightarrow> bool" where
  "source_read e (Put src dst) = (case read_text e src of Inl x \<Rightarrow> False | Inr content \<Rightarrow> True)"
| "source_read e c = True"

fun expected_timeout :: "command \<Rightarrow> nat option" where
  "expected_timeout (Ls dir) = Some 5"
| "expected_timeout c = None"

section \<open>Facts shared by the proofs\<close>

lemma request_then_Inr:
  "requests_request e q = Inr r \<Longrightarrow> request_then e q rest = (rest r)\<lparr>sent := [q]\<rparr>"
  by (simp add: request_then_def)

lemma request_then_Inl:
  "requests_request e q = Inl err \<Longrightarrow>
     request_then e q rest = (raise [] (RequestException err))\<lparr>sent := [q]\<rparr>"
  by (simp add: request_then_def)

lemma sent_request_then: "sent (request_then e q rest) = [q]"
  by (simp add: request_then_def split: sum.split)

lemma always_device [simp]: "requests_request (device answer) q = answer"
  by (simp add: device_def always_def)

lemma always_device_no_file [simp]: "requests_request (device_no_file answer) q = answer"
  by (simp add: device_no_file_def device_def always_def)

lemma read_text_device [simp]: "read_text (device answer) path = Inr ''print(1)''"
  by (simp add: device_def readable_def)

lemma read_text_device_no_file [simp]: "read_text (device_no_file answer) path = Inl OSError"
  by (simp add: device_no_file_def unreadable_def)

lemma status_simps [simp]:
  "status_code (status code body) = code"
  "response_text (status code body) = body"
  "body_json (status code body) = None"
  "body_listing (status code body) = None"
  by (simp_all add: status_def)

lemma circuitpy_simps [simp]:
  "cpremote_host circuitpy = ''http://circuitpython.local''"
  "cpremote_password circuitpy = ''passw0rd''"
  "cpremote_units circuitpy = None"
  by (simp_all add: circuitpy_def)

lemma str_int_418: "str_int 418 = ''418''"
  by (simp add: str_int_def str_nat.simps digit_char_def)

lemma str_int_counts:
  "str_int 100 = ''100''" "str_int 200 = ''200''" "str_int 512 = ''512''"
  "str_int 51200 = ''51200''" "str_int 102400 = ''102400''" "str_int 50 = ''50''"
  by (simp_all add: str_int_def str_nat.simps digit_char_def)

section \<open>The unknown status codes of \<open>get\<close>\<close>

text \<open>
  C7. When the device answers \<open>get\<close> with a status code other than 200, 401, 403 and
  404, \<open>get\<close> prints one message and nothing else: the word \<open>Unknown\<close>, the status code
  in decimal, a colon and the body as received. That message is none of the fixed
  messages of \<open>get\<close>, no file is written and no exception is raised.
\<close>

theorem get_unknown_status:
  assumes "requests_request e
             \<lparr>verb = ''GET'', url = cpremote_host g @ ''/fs/'' @ src,
              auth = Some ('''', cpremote_password g), headers = [], data = None,
              timeout = None\<rparr> = Inr r"
    and "status_code r \<notin> {200, 401, 403, 404}"
  shows "printed (get e g src dst)
           = [''Unknown '' @ str_int (status_code r) @ '': '' @ response_text r]
         \<and> set (printed (get e g src dst))
             \<inter> {''File exists and file returned'', ''Incorrect password'',
                  ''No CIRCUITPY_WEB_API_PASSWORD set'', ''Missing file''} = {}
         \<and> written (get e g src dst) = []
         \<and> raised (get e g src dst) = None"
  using assms by (simp add: get_def request_then_Inr print_def unknown_def)

theorem get_unknown_status_witness:
  "printed (get (device (Inr (status 418 ''teapot''))) circuitpy ''code.py'' None)
     = [''Unknown 418: teapot'']
   \<and> raised (get (device (Inr (status 418 ''teapot''))) circuitpy ''code.py'' None) = None"
  using get_unknown_status
    [of "device (Inr (status 418 ''teapot''))" circuitpy "''code.py''" "status 418 ''teapot''" None]
  by (simp add: str_int_418)

section \<open>The default destination of \<open>put\<close>\<close>

text \<open>
  C10. \<open>put\<close> without a destination does exactly what \<open>put\<close> does with the source
  name as its destination; when the local source file can be read, the one request either
  of them issues goes to the host followed by \<open>/fs/\<close> and the source name.
\<close>

theorem put_default_destination:
  "put e g src None = put e g src (Some src)
   \<and> (\<forall>content. read_text e src = Inr content \<longrightarrow>
          map url (sent (put e g src None)) = [cpremote_host g @ ''/fs/'' @ src]
        \<and> map data (sent (put e g src None)) = [Some content])"
  by (simp add: put_def sent_request_then)

theorem put_default_destination_witness:
  "put (device (Inr (status 201 ''''))) circuitpy ''code.py'' None
     = put (device (Inr (status 201 ''''))) circuitpy ''code.py'' (Some ''code.py'')
   \<and> map url (sent (put (device (Inr (status 201 ''''))) circuitpy ''code.py'' None))
       = [''http://circuitpython.local/fs/code.py'']"
  using put_default_destination [of "device (Inr (status 201 ''''))" circuitpy "''code.py''"]
  by auto

section \<open>Configuration\<close>

text \<open>
  C9. A flag, when given, replaces the value of the environment. If neither gives a host,
  \<open>main\<close> prints that \<open>CPREMOTE_HOST\<close> is not set and returns; if there is a host and
  neither gives a password, it prints that \<open>CPREMOTE_PASSWORD\<close> is not set and
  returns. In both cases no request is issued and nothing is raised. Otherwise the
  subcommand runs with the host, password and units so chosen, and a value of the
  environment that a flag replaces has no influence on the run.
\<close>

theorem main_configuration:
  "(host a = None \<and> CPREMOTE_HOST os = None \<longrightarrow>
      printed (main e os a) = [''Error: CPREMOTE_HOST is not set'']
      \<and> sent (main e os a) = [] \<and> raised (main e os a) = None)
   \<and> ((host a \<noteq> None \<or> CPREMOTE_HOST os \<noteq> None)
        \<and> password a = None \<and> CPREMOTE_PASSWORD os = None \<longrightarrow>
      printed (main e os a) = [''Error: CPREMOTE_PASSWORD is not set'']
      \<and> sent (main e os a) = [] \<and> raised (main e os a) = None)
   \<and> ((case host a of Some v \<Rightarrow> Some v | None \<Rightarrow> CPREMOTE_HOST os) = Some h
        \<and> (case password a of Some v \<Rightarrow> Some v | None \<Rightarrow> CPREMOTE_PASSWORD os) = Some p \<longrightarrow>
      main e os a =
        dispatch e
          \<lparr>cpremote_host = h, cpremote_password = p,
           cpremote_units = (case units a of Some v \<Rightarrow> Some v | None \<Rightarrow> CPREMOTE_UNITS os)\<rparr>
          (command a))
   \<and> (host a \<noteq> None \<longrightarrow> main e (os\<lparr>CPREMOTE_HOST := x\<rparr>) a = main e os a)
   \<and> (password a \<noteq> None \<longrightarrow> main e (os\<lparr>CPREMOTE_PASSWORD := x\<rparr>) a = main e os a)
   \<and> (units a \<noteq> None \<longrightarrow> main e (os\<lparr>CPREMOTE_UNITS := x\<rparr>) a = main e os a)"
  by (auto simp add: main_def override_def print_def split: option.splits)

theorem main_configuration_witness:
  "printed (main (device (Inr (status 200 '''')))
      \<lparr>CPREMOTE_HOST = None, CPREMOTE_PASSWORD = Some ''passw0rd'', CPREMOTE_UNITS = None\<rparr>
      \<lparr>host = None, password = None, units = None, command = Some (Rm ''code.py'')\<rparr>)
     = [''Error: CPREMOTE_HOST is not set'']
   \<and> printed (main (device (Inr (status 200 '''')))
      \<lparr>CPREMOTE_HOST = Some ''http://other.local'', CPREMOTE_PASSWORD = None,
       CPREMOTE_UNITS = None\<rparr>
      \<lparr>host = None, password = None, units = None, command = Some (Rm ''code.py'')\<rparr>)
     = [''Error: CPREMOTE_PASSWORD is not set'']
   \<and> map url (sent (main (device (Inr (status 204 '''')))
      \<lparr>CPREMOTE_HOST = Some ''http://other.local'', CPREMOTE_PASSWORD = Some ''secret'',
       CPREMOTE_UNITS = None\<rparr>
      \<lparr>host = Some ''http://circuitpython.local'', password = None, units = None,
       command = Some (Rm ''code.py'')\<rparr>))
     = [''http://circuitpython.local/fs/code.py'']"
  using
    main_configuration
      [of "\<lparr>host = None, password = None, units = None, command = Some (Rm ''code.py'')\<rparr>"
          "\<lparr>CPREMOTE_HOST = None, CPREMOTE_PASSWORD = Some ''passw0rd'', CPREMOTE_UNITS = None\<rparr>"
          "device (Inr (status 200 ''''))"]
    main_configuration
      [of "\<lparr>host = None, password = None, units = None, command = Some (Rm ''code.py'')\<rparr>"
          "\<lparr>CPREMOTE_HOST = Some ''http://other.local'', CPREMOTE_PASSWORD = None,
            CPREMOTE_UNITS = None\<rparr>"
          "device (Inr (status 200 ''''))"]
    main_configuration
      [of "\<lparr>host = Some ''http://circuitpython.local'', password = None, units = None,
            command = Some (Rm ''code.py'')\<rparr>"
          "\<lparr>CPREMOTE_HOST = Some ''http://other.local'', CPREMOTE_PASSWORD = Some ''secret'',
            CPREMOTE_UNITS = None\<rparr>"
          "device (Inr (status 204 ''''))" "''http://circuitpython.local''" "''secret''"]
  by (simp add: rm_def sent_request_then)

section \<open>Status 401 and 403\<close>

text \<open>
  C1, amended. For each subcommand that works on the remote file system (\<open>get\<close>,
  \<open>ls\<close>, \<open>mkdir\<close>, \<open>mv\<close>, \<open>put\<close>, \<open>rm\<close>, \<open>rmdir\<close>), once its local source
  file, if it has one, is read: when the device answers 401 the subcommand prints exactly
  \<open>Incorrect password\<close>, when it answers 403 exactly
  \<open>No CIRCUITPY_WEB_API_PASSWORD set\<close>, and nothing is raised. The info queries are not
  part of this: \<open>info\<close> never looks at the status code.
\<close>

theorem filesystem_status_401_403:
  assumes "filesystem_command c"
    and "source_read e c"
    and "\<forall>q. requests_request e q = Inr r"
  shows "(status_code r = 401 \<longrightarrow>
            printed (dispatch e g (Some c)) = [''Incorrect password'']
            \<and> raised (dispatch e g (Some c)) = None)
         \<and> (status_code r = 403 \<longrightarrow>
            printed (dispatch e g (Some c)) = [''No CIRCUITPY_WEB_API_PASSWORD set'']
            \<and> raised (dispatch e g (Some c)) = None)"
proof (cases c)
  case (Put src dst)
  with assms(2) obtain content where "read_text e src = Inr content"
    by (auto split: sum.splits)
  with Put assms(3) show ?thesis
    by (simp add: put_def request_then_Inr print_def)
qed (use assms in \<open>simp_all add: get_def ls_def mkdir_def mv_def rm_def rmdir_def
                                  request_then_Inr print_def\<close>)

theorem filesystem_status_401_403_witness:
  "printed (dispatch (device (Inr (status 401 ''''))) circuitpy (Some (Put ''code.py'' None)))
     = [''Incorrect password'']
   \<and> printed (dispatch (device (Inr (status 403 ''''))) circuitpy (Some (Ls ''lib'')))
     = [''No CIRCUITPY_WEB_API_PASSWORD set'']"
  using
    filesystem_status_401_403
      [of "Put ''code.py'' None" "device (Inr (status 401 ''''))" "status 401 ''''" circuitpy]
    filesystem_status_401_403
      [of "Ls ''lib''" "device (Inr (status 403 ''''))" "status 403 ''''" circuitpy]
  by simp

text \<open>
  The claim as written fails on the info queries: a 401 answer to \<open>version\<close> whose body
  is not JSON ends in a decoding error, and nothing is printed.
\<close>

theorem info_status_401_counterexample:
  "printed (dispatch (device (Inr (status 401 ''Unauthorized''))) circuitpy (Some Version))
     \<noteq> [''Incorrect password'']
   \<and> printed (dispatch (device (Inr (status 401 ''Unauthorized''))) circuitpy (Some Version)) = []
   \<and> raised (dispatch (device (Inr (status 401 ''Unauthorized''))) circuitpy (Some Version))
       = Some JSONDecodeError"
  by (simp add: info_def request_then_Inr raise_def)

section \<open>The info queries\<close>

text \<open>
  C3, amended. Whatever the status code of the answer, \<open>info\<close> decodes the body as
  JSON: if that succeeds it prints the document serialised again with an indent of four
  spaces and nothing else; if the body is not JSON the decoder raises and nothing is
  printed. No status code is echoed.
\<close>

theorem info_ignores_status:
  assumes "requests_request e
             \<lparr>verb = ''GET'', url = cpremote_host g @ ''/cp/'' @ path @ ''.json'',
              auth = None, headers = [], data = None, timeout = None\<rparr> = Inr r"
  shows "(\<forall>obj. body_json r = Some obj \<longrightarrow>
            printed (info e g path) = [json_dumps obj 4] \<and> raised (info e g path) = None)
         \<and> (body_json r = None \<longrightarrow>
            printed (info e g path) = [] \<and> raised (info e g path) = Some JSONDecodeError)"
  using assms by (simp add: info_def request_then_Inr print_def raise_def)

theorem info_ignores_status_witness:
  "printed (info (device (Inr version_response)) circuitpy ''version'')
     = [''{'' @ [CHR 0x0A]
        @ ''    '' @ [CHR 0x22] @ ''web_api_version'' @ [CHR 0x22] @ '': 4,'' @ [CHR 0x0A]
        @ ''    '' @ [CHR 0x22] @ ''hostname'' @ [CHR 0x22] @ '': ''
                   @ [CHR 0x22] @ ''cpy-f57ce8'' @ [CHR 0x22] @ '','' @ [CHR 0x0A]
        @ ''    '' @ [CHR 0x22] @ ''ble'' @ [CHR 0x22] @ '': false,'' @ [CHR 0x0A]
        @ ''    '' @ [CHR 0x22] @ ''ips'' @ [CHR 0x22] @ '': ['' @ [CHR 0x0A]
        @ ''        '' @ [CHR 0x22] @ ''10.0.0.5'' @ [CHR 0x22] @ [CHR 0x0A]
        @ ''    ]'' @ [CHR 0x0A]
        @ ''}'']
   \<and> raised (info (device (Inr version_response)) circuitpy ''version'') = None
   \<and> raised (info (device (Inr (status 200 ''''))) circuitpy ''version'') = Some JSONDecodeError"
  using
    info_ignores_status
      [where e = "device (Inr version_response)" and g = circuitpy and path = "''version''"
         and r = version_response]
    info_ignores_status
      [where e = "device (Inr (status 200 ''''))" and g = circuitpy and path = "''version''"
         and r = "status 200 ''''"]
  by (simp add: version_response_def version_json_def json_dumps_def newline_indent_def
        encode_basestring_ascii_def escape_char_def str_int_def str_nat.simps digit_char_def
        numeral_eq_Suc)

theorem info_status_500_counterexample:
  "printed (info (device (Inr (status 500 ''Internal Server Error''))) circuitpy ''diskinfo'') = []
   \<and> raised (info (device (Inr (status 500 ''Internal Server Error''))) circuitpy ''diskinfo'')
       = Some JSONDecodeError"
  by (simp add: info_def request_then_Inr raise_def)

section \<open>Transport failures\<close>

text \<open>
  C4, amended. No subcommand handles a transport failure. When the program is configured
  and the request of a subcommand (any but \<open>repl\<close>, which issues none) gets no response,
  the exception of the transport leaves the subcommand and \<open>main\<close> as it was raised;
  the program prints nothing, and the one request is not repeated.
\<close>

theorem transport_failure_propagates:
  assumes "(case host a of Some v \<Rightarrow> Some v | None \<Rightarrow> CPREMOTE_HOST os) \<noteq> None"
    and "(case password a of Some v \<Rightarrow> Some v | None \<Rightarrow> CPREMOTE_PASSWORD os) \<noteq> None"
    and "command a = Some c"
    and "c \<noteq> Repl"
    and "source_read e c"
    and "\<forall>q. requests_request e q = Inl err"
  shows "raised (main e os a) = Some (RequestException err)
         \<and> printed (main e os a) = []
         \<and> length (sent (main e os a)) = 1"
proof -
  from assms(1,2) obtain h p where
    hp: "override (host a) (CPREMOTE_HOST os) = Some h"
        "override (password a) (CPREMOTE_PASSWORD os) = Some p"
    by (auto simp add: override_def split: option.splits)
  define g where
    "g = \<lparr>cpremote_host = h, cpremote_password = p,
          cpremote_units = override (units a) (CPREMOTE_UNITS os)\<rparr>"
  have m: "main e os a = dispatch e g (Some c)"
    using hp assms(3) by (simp add: main_def g_def)
  have "raised (dispatch e g (Some c)) = Some (RequestException err)
        \<and> printed (dispatch e g (Some c)) = []
        \<and> length (sent (dispatch e g (Some c))) = 1"
  proof (cases c)
    case (Put src dst)
    with assms(5) obtain content where "read_text e src = Inr content"
      by (auto split: sum.splits)
    with Put assms(6) show ?thesis
      by (simp add: put_def request_then_Inl raise_def)
  qed (use assms(4,6) in \<open>simp_all add: get_def info_def ls_def mkdir_def mv_def rm_def rmdir_def
                                        request_then_Inl raise_def\<close>)
  with m show ?thesis by simp
qed

theorem transport_failure_propagates_witness:
  "raised (main (device (Inl ReadTimeout)) configured (invoke (Ls ''/'')))
     = Some (RequestException ReadTimeout)
   \<and> printed (main (device (Inl ReadTimeout)) configured (invoke (Ls ''/''))) = []"
  using transport_failure_propagates
    [where a = "invoke (Ls ''/'')" and os = configured and c = "Ls ''/''"
       and e = "device (Inl ReadTimeout)" and err = ReadTimeout]
  by (simp add: invoke_def configured_def)

theorem transport_failure_counterexample:
  "raised (main (device (Inl ConnectionError)) configured (invoke (Get ''code.py'' None)))
     = Some (RequestException ConnectionError)
   \<and> printed (main (device (Inl ConnectionError)) configured (invoke (Get ''code.py'' None))) = []"
  by (simp add: main_def override_def invoke_def configured_def get_def request_then_Inl raise_def)

section \<open>Requests and timeouts\<close>

text \<open>
  C8, amended. A subcommand issues at most one request. \<open>get\<close>, \<open>ls\<close>, \<open>mkdir\<close>,
  \<open>mv\<close>, \<open>rm\<close>, \<open>rmdir\<close> and the info queries issue exactly one, whatever the
  answer, and so does \<open>put\<close> when its local source file can be read; when it cannot,
  \<open>put\<close> raises before any request. The request of \<open>ls\<close> has a timeout of 5 seconds,
  every other request has none. \<open>repl\<close> issues no request.
\<close>

theorem one_request_per_subcommand:
  "(c \<noteq> Repl \<and> source_read e c \<longrightarrow>
      map timeout (sent (dispatch e g (Some c))) = [expected_timeout c])
   \<and> (\<not> source_read e c \<longrightarrow> sent (dispatch e g (Some c)) = [])
   \<and> sent (dispatch e g (Some Repl)) = []"
  by (cases c)
     (auto simp add: get_def info_def ls_def mkdir_def mv_def put_def rm_def rmdir_def repl_def
        sent_request_then print_def raise_def Let_def split: sum.splits)

theorem one_request_per_subcommand_witness:
  "map timeout (sent (dispatch (device (Inr (status 404 ''''))) circuitpy (Some (Ls ''lib''))))
     = [Some 5]
   \<and> map timeout (sent (dispatch (device (Inl ConnectTimeout)) circuitpy (Some (Rm ''code.py''))))
     = [None]
   \<and> sent (dispatch (device_no_file (Inr (status 201 ''''))) circuitpy
            (Some (Put ''code.py'' None))) = []"
  using
    one_request_per_subcommand [of "Ls ''lib''" "device (Inr (status 404 ''''))" circuitpy]
    one_request_per_subcommand [of "Rm ''code.py''" "device (Inl ConnectTimeout)" circuitpy]
    one_request_per_subcommand
      [of "Put ''code.py'' None" "device_no_file (Inr (status 201 ''''))" circuitpy]
  by simp

theorem put_without_source_counterexample:
  "sent (put (device_no_file (Inr (status 201 ''''))) circuitpy ''code.py'' None) = []
   \<and> raised (put (device_no_file (Inr (status 201 ''''))) circuitpy ''code.py'' None)
       = Some OSError"
  by (simp add: put_def raise_def)

section \<open>Directory paths\<close>

lemma endswith_slash [simp]: "endswith (p @ ''/'') ''/''"
  by (simp add: endswith_def)

text \<open>
  C2, amended. \<open>ls\<close>, \<open>mkdir\<close> and \<open>rmdir\<close> append a slash to a path that does not
  end with one before they build the URL: for such a path \<open>p\<close> the request goes to the
  host followed by \<open>/fs/\<close>, \<open>p\<close> and a slash, and the whole run is the one for \<open>p\<close>
  with the slash already there; a path that ends with a slash is sent as it is. \<open>mv\<close>
  appends nothing: its request goes to the host followed by \<open>/fs/\<close> and the source as
  given, and the \<open>X-Destination\<close> header is \<open>/fs/\<close> followed by the destination as
  given.
\<close>

theorem directory_paths:
  "(\<not> endswith p ''/'' \<longrightarrow>
      map url (sent (ls e g p)) = [cpremote_host g @ ''/fs/'' @ p @ ''/'']
      \<and> map url (sent (mkdir e g p)) = [cpremote_host g @ ''/fs/'' @ p @ ''/'']
      \<and> map url (sent (rmdir e g p)) = [cpremote_host g @ ''/fs/'' @ p @ ''/'']
      \<and> ls e g p = ls e g (p @ ''/'')
      \<and> mkdir e g p = mkdir e g (p @ ''/'')
      \<and> rmdir e g p = rmdir e g (p @ ''/''))
   \<and> (endswith p ''/'' \<longrightarrow>
      map url (sent (ls e g p)) = [cpremote_host g @ ''/fs/'' @ p]
      \<and> map url (sent (mkdir e g p)) = [cpremote_host g @ ''/fs/'' @ p]
      \<and> map url (sent (rmdir e g p)) = [cpremote_host g @ ''/fs/'' @ p])
   \<and> map url (sent (mv e g src dst)) = [cpremote_host g @ ''/fs/'' @ src]
   \<and> map headers (sent (mv e g src dst)) = [[(''X-Destination'', ''/fs/'' @ dst)]]"
  by (simp add: ls_def mkdir_def rmdir_def mv_def sent_request_then Let_def)

theorem directory_paths_witness:
  "map url (sent (ls (device (Inr (status 404 ''''))) circuitpy ''foo''))
     = [''http://circuitpython.local/fs/foo/'']
   \<and> ls (device (Inr (status 404 ''''))) circuitpy ''foo''
     = ls (device (Inr (status 404 ''''))) circuitpy ''foo/''
   \<and> map url (sent (rmdir (device (Inr (status 204 ''''))) circuitpy ''foo/''))
     = [''http://circuitpython.local/fs/foo/'']"
  using
    directory_paths
      [where p = "''foo''" and e = "device (Inr (status 404 ''''))" and g = circuitpy
         and src = "''a''" and dst = "''b''"]
    directory_paths
      [where p = "''foo/''" and e = "device (Inr (status 204 ''''))" and g = circuitpy
         and src = "''a''" and dst = "''b''"]
  by (auto simp add: endswith_def)

theorem mv_destination_counterexample:
  "\<not> endswith ''boot'' ''/''
   \<and> map headers (sent (mv (device (Inr (status 201 ''''))) circuitpy ''lib'' ''boot''))
       = [[(''X-Destination'', ''/fs/boot'')]]
   \<and> map url (sent (mv (device (Inr (status 201 ''''))) circuitpy ''lib'' ''boot''))
       = [''http://circuitpython.local/fs/lib'']"
  by (simp add: endswith_def mv_def sent_request_then)

section \<open>The modified column of a listing\<close>

lemma strftime_this_year:
  "strftime ''%b %d %H:%M'' t
     = month_abbr (tm_mon t) @ '' '' @ pad2 (tm_mday t) @ '' '' @ pad2 (tm_hour t)
       @ '':'' @ pad2 (tm_min t)"
  by (simp add: directive_def)

lemma strftime_other_year:
  "strftime ''%b %d  %Y'' t
     = month_abbr (tm_mon t) @ '' '' @ pad2 (tm_mday t) @ ''  '' @ str_int (tm_year t)"
  by (simp add: directive_def)

lemma print_files_line:
  "k < length fs \<Longrightarrow> \<forall>j\<le>k. \<exists>t. localtime_of_ns e (modified_ns (fs ! j)) = Inr t \<Longrightarrow>
     k < length (fst (print_files e i fs))
     \<and> format_file e (i + k) (fs ! k) = Inr (fst (print_files e i fs) ! k)"
proof (induction fs arbitrary: i k)
  case Nil
  then show ?case by simp
next
  case (Cons f fs)
  from Cons.prems(2) obtain t where t: "localtime_of_ns e (modified_ns f) = Inr t"
    by fastforce
  then obtain line where line: "format_file e i f = Inr line"
    by (simp add: format_file_def Let_def)
  show ?case
  proof (cases k)
    case 0
    with line show ?thesis by (simp split: prod.splits)
  next
    case (Suc k')
    have "k' < length fs" using Cons.prems(1) Suc by simp
    moreover have "\<forall>j\<le>k'. \<exists>t. localtime_of_ns e (modified_ns (fs ! j)) = Inr t"
    proof (intro allI impI)
      fix j assume "j \<le> k'"
      then have "Suc j \<le> k" using Suc by simp
      with Cons.prems(2) have "\<exists>t. localtime_of_ns e (modified_ns ((f # fs) ! Suc j)) = Inr t"
        by blast
      then show "\<exists>t. localtime_of_ns e (modified_ns (fs ! j)) = Inr t" by simp
    qed
    ultimately have
      "k' < length (fst (print_files e (Suc i) fs))
       \<and> format_file e (Suc i + k') (fs ! k') = Inr (fst (print_files e (Suc i) fs) ! k')"
      by (rule Cons.IH)
    with line Suc show ?thesis by (auto split: prod.splits)
  qed
qed

lemma ls_printed_lines:
  assumes "requests_request e
             \<lparr>verb = ''GET'',
              url = cpremote_host g @ ''/fs/'' @ (if endswith dir ''/'' then dir else dir @ ''/''),
              auth = Some ('''', cpremote_password g),
              headers = [(''Accept'', ''application/json'')], data = None,
              timeout = Some 5\<rparr> = Inr r"
    and "status_code r = 200"
    and "body_listing r = Some d"
    and "k < length (fst (print_files e 0 (files d)))"
  shows "printed (ls e g dir) ! (2 + k) = fst (print_files e 0 (files d)) ! k"
  using assms
  by (cases "endswith dir ''/''")
     (auto simp add: ls_def request_then_Inr print_def raise_def Let_def nth_append
        split: prod.splits option.splits sum.splits)

text \<open>
  C6. Take a listing that \<open>ls\<close> receives with status 200 and an entry of it such that
  the local time of it and of every entry before it can be computed. The line \<open>ls\<close>
  prints for that entry has between its two tabs the month name, the day and the hour
  and minute of the entry, each on two digits, if the year of the entry is the year that
  \<open>time.localtime()\<close> gives when the entry is formatted; otherwise the month name, the
  day, two spaces and the year.
\<close>

theorem ls_modified_column:
  assumes "requests_request e
             \<lparr>verb = ''GET'',
              url = cpremote_host g @ ''/fs/'' @ (if endswith dir ''/'' then dir else dir @ ''/''),
              auth = Some ('''', cpremote_password g),
              headers = [(''Accept'', ''application/json'')], data = None,
              timeout = Some 5\<rparr> = Inr r"
    and "status_code r = 200"
    and "body_listing r = Some d"
    and "k < length (files d)"
    and "\<forall>j\<le>k. \<exists>t. localtime_of_ns e (modified_ns (files d ! j)) = Inr t"
    and "localtime_of_ns e (modified_ns (files d ! k)) = Inr t"
  shows "printed (ls e g dir) ! (2 + k)
           = (if directory (files d ! k) then '''' else str_int (file_size (files d ! k)))
             @ [CHR 0x09]
             @ (if tm_year t = tm_year (localtime_now e k)
                then month_abbr (tm_mon t) @ '' '' @ pad2 (tm_mday t) @ '' ''
                     @ pad2 (tm_hour t) @ '':'' @ pad2 (tm_min t)
                else month_abbr (tm_mon t) @ '' '' @ pad2 (tm_mday t) @ ''  ''
                     @ str_int (tm_year t))
             @ [CHR 0x09] @ name (files d ! k)
             @ (if directory (files d ! k) then ''/'' else '''')"
proof -
  from print_files_line [OF assms(4,5), of 0]
  have k: "k < length (fst (print_files e 0 (files d)))"
    and line: "format_file e k (files d ! k) = Inr (fst (print_files e 0 (files d)) ! k)"
    by simp_all
  have "printed (ls e g dir) ! (2 + k) = fst (print_files e 0 (files d)) ! k"
    using assms(1,2,3) k by (rule ls_printed_lines)
  moreover from line assms(6)
  have "fst (print_files e 0 (files d)) ! k
          = (if directory (files d ! k) then '''' else str_int (file_size (files d ! k)))
            @ [CHR 0x09]
            @ (if tm_year t = tm_year (localtime_now e k)
               then strftime ''%b %d %H:%M'' t else strftime ''%b %d  %Y'' t)
            @ [CHR 0x09] @ name (files d ! k)
            @ (if directory (files d ! k) then ''/'' else '''')"
    by (auto simp add: format_file_def Let_def)
  ultimately show ?thesis
    by (simp only: strftime_this_year strftime_other_year)
qed

lemma device_time [simp]:
  "localtime_now (device answer) i = clock i"
  "localtime_of_ns (device answer) ns = utc ns"
  by (simp_all add: device_def)

theorem ls_modified_column_witness:
  "printed (ls (device (Inr listing_response)) circuitpy ''/'') ! 2
     = ''22'' @ [CHR 0x09] @ ''Mar 05 14:07'' @ [CHR 0x09] @ ''code.py''
   \<and> printed (ls (device (Inr listing_response)) circuitpy ''/'') ! 3
     = [CHR 0x09] @ ''Jan 01  1970'' @ [CHR 0x09] @ ''lib/''"
proof -
  have r: "status_code listing_response = 200" "body_listing listing_response = Some root_listing"
    by (simp_all add: listing_response_def)
  have t0: "localtime_of_ns (device (Inr listing_response)) (modified_ns (files root_listing ! 0))
              = Inr \<lparr>tm_year = 2026, tm_mon = 3, tm_mday = 5, tm_hour = 14, tm_min = 7\<rparr>"
    by (simp add: root_listing_def utc_def)
  have t1: "localtime_of_ns (device (Inr listing_response)) (modified_ns (files root_listing ! 1))
              = Inr \<lparr>tm_year = 1970, tm_mon = 1, tm_mday = 1, tm_hour = 0, tm_min = 0\<rparr>"
    by (simp add: root_listing_def utc_def)
  have all0: "\<forall>j\<le>0. \<exists>t. localtime_of_ns (device (Inr listing_response))
                              (modified_ns (files root_listing ! j)) = Inr t"
    using t0 by simp
  have all1: "\<forall>j\<le>1. \<exists>t. localtime_of_ns (device (Inr listing_response))
                              (modified_ns (files root_listing ! j)) = Inr t"
  proof (intro allI impI)
    fix j :: nat assume "j \<le> 1"
    then have "j = 0 \<or> j = 1" by auto
    with t0 t1 show "\<exists>t. localtime_of_ns (device (Inr listing_response))
                            (modified_ns (files root_listing ! j)) = Inr t"
      by auto
  qed
  have n: "0 < length (files root_listing)" "1 < length (files root_listing)"
    by (simp_all add: root_listing_def)
  have q: "requests_request (device (Inr listing_response))
             \<lparr>verb = ''GET'',
              url = cpremote_host circuitpy @ ''/fs/''
                    @ (if endswith ''/'' ''/'' then ''/'' else ''/'' @ ''/''),
              auth = Some ('''', cpremote_password circuitpy),
              headers = [(''Accept'', ''application/json'')], data = None,
              timeout = Some 5\<rparr> = Inr listing_response"
    by simp
  from ls_modified_column [OF q r n(1) all0 t0] ls_modified_column [OF q r n(2) all1 t1]
  show ?thesis
    by (simp add: root_listing_def clock_def month_abbr_def pad2_def str_int_def
          str_nat.simps digit_char_def)
qed

section \<open>Units\<close>

lemma summary_100_200_512:
  assumes "free d = 100" and "total d = 200" and "block_size d = 512"
  shows "summary e (Some ''blocks'') d
           = Inr (''free: 100 blocks, total: 200 blocks, block size: 512, writable: ''
                  @ str_bool (writable d))"
    and "summary e (Some ''b'') d
           = Inr (''free: 51200 b, total: 102400 b, block size: 512, writable: ''
                  @ str_bool (writable d))"
    and "summary e (Some ''kb'') d
           = Inr (''free: 50.0 kb, total: 100.0 kb, block size: 512, writable: ''
                  @ str_bool (writable d))"
    and "summary e None d
           = Inr (''free: 100 None, total: 200 None, block size: 512, writable: ''
                  @ str_bool (writable d))"
  using assms
  by (simp_all add: summary_def convert_def str_truediv_def str_optional_def str_int_counts)

lemma print_files_all:
  "\<forall>f\<in>set fs. \<exists>t. localtime_of_ns e (modified_ns f) = Inr t \<Longrightarrow>
     snd (print_files e i fs) = None \<and> length (fst (print_files e i fs)) = length fs"
proof (induction fs arbitrary: i)
  case Nil
  then show ?case by simp
next
  case (Cons f fs)
  then obtain t where "localtime_of_ns e (modified_ns f) = Inr t"
    by fastforce
  then obtain line where "format_file e i f = Inr line"
    by (simp add: format_file_def Let_def)
  moreover from Cons have
    "snd (print_files e (Suc i) fs) = None
     \<and> length (fst (print_files e (Suc i) fs)) = length fs"
    by simp
  ultimately show ?case by (auto split: prod.splits)
qed

lemma ls_prints_summary:
  assumes "requests_request e
             \<lparr>verb = ''GET'',
              url = cpremote_host g @ ''/fs/'' @ (if endswith dir ''/'' then dir else dir @ ''/''),
              auth = Some ('''', cpremote_password g),
              headers = [(''Accept'', ''application/json'')], data = None,
              timeout = Some 5\<rparr> = Inr r"
    and "status_code r = 200"
    and "body_listing r = Some d"
    and "\<forall>f\<in>set (files d). \<exists>t. localtime_of_ns e (modified_ns f) = Inr t"
    and "summary e (cpremote_units g) d = Inr line"
  shows "last (printed (ls e g dir)) = line"
    and "length (printed (ls e g dir)) = 3 + length (files d)"
    and "raised (ls e g dir) = None"
proof -
  from print_files_all [OF assms(4), of 0]
  obtain lines where p: "print_files e 0 (files d) = (lines, None)"
    and n: "length lines = length (files d)"
    by (cases "print_files e 0 (files d)") auto
  from assms(1,2,3,5) p
  have "\<exists>head. printed (ls e g dir) = [head, ''Size'' @ [CHR 0x09] @ ''Modified'' @ [CHR 0x09] @ ''Name'']
                                          @ lines @ [line]
               \<and> raised (ls e g dir) = None"
    by (cases "endswith dir ''/''")
       (simp_all add: ls_def request_then_Inr print_def Let_def)
  with n show "last (printed (ls e g dir)) = line"
    and "length (printed (ls e g dir)) = 3 + length (files d)"
    and "raised (ls e g dir) = None"
    by auto
qed

text \<open>
  C5, amended. Take a listing that \<open>ls\<close> receives with status 200, with 100 free
  blocks, 200 blocks in all and a block size of 512, whose entries can all be formatted.
  The last line \<open>ls\<close> prints, after the two heading lines and one line for each entry,
  shows 100 and 200 with the units \<open>blocks\<close>, 51200 and 102400 with the units \<open>b\<close>,
  and 50.0 and 100.0 with the units \<open>kb\<close>. No units are the default \<open>blocks\<close>: when
  none are configured the counts are not converted either, and the word printed after
  them is \<open>None\<close>.
\<close>

theorem ls_units_conversion:
  assumes "requests_request e
             \<lparr>verb = ''GET'',
              url = cpremote_host g @ ''/fs/'' @ (if endswith dir ''/'' then dir else dir @ ''/''),
              auth = Some ('''', cpremote_password g),
              headers = [(''Accept'', ''application/json'')], data = None,
              timeout = Some 5\<rparr> = Inr r"
    and "status_code r = 200"
    and "body_listing r = Some d"
    and "\<forall>f\<in>set (files d). \<exists>t. localtime_of_ns e (modified_ns f) = Inr t"
    and "free d = 100" and "total d = 200" and "block_size d = 512"
  shows "(cpremote_units g = Some ''blocks'' \<longrightarrow>
            last (printed (ls e g dir))
              = ''free: 100 blocks, total: 200 blocks, block size: 512, writable: ''
                @ str_bool (writable d)
            \<and> length (printed (ls e g dir)) = 3 + length (files d))
         \<and> (cpremote_units g = Some ''b'' \<longrightarrow>
            last (printed (ls e g dir))
              = ''free: 51200 b, total: 102400 b, block size: 512, writable: ''
                @ str_bool (writable d)
            \<and> length (printed (ls e g dir)) = 3 + length (files d))
         \<and> (cpremote_units g = Some ''kb'' \<longrightarrow>
            last (printed (ls e g dir))
              = ''free: 50.0 kb, total: 100.0 kb, block size: 512, writable: ''
                @ str_bool (writable d)
            \<and> length (printed (ls e g dir)) = 3 + length (files d))
         \<and> (cpremote_units g = None \<longrightarrow>
            last (printed (ls e g dir))
              = ''free: 100 None, total: 200 None, block size: 512, writable: ''
                @ str_bool (writable d)
            \<and> length (printed (ls e g dir)) = 3 + length (files d))"
proof (intro conjI impI)
  note s = summary_100_200_512 [OF assms(5,6,7), of e]
  note l = ls_prints_summary [OF assms(1,2,3,4)]
  {
    assume u: "cpremote_units g = Some ''blocks''"
    from l(1) [of "''free: 100 blocks, total: 200 blocks, block size: 512, writable: ''
                    @ str_bool (writable d)"] s(1) u
    show "last (printed (ls e g dir))
            = ''free: 100 blocks, total: 200 blocks, block size: 512, writable: ''
              @ str_bool (writable d)"
      by simp
    from l(2) s(1) u show "length (printed (ls e g dir)) = 3 + length (files d)"
      by simp
  }
  {
    assume u: "cpremote_units g = Some ''b''"
    from l(1) [of "''free: 51200 b, total: 102400 b, block size: 512, writable: ''
                    @ str_bool (writable d)"] s(2) u
    show "last (printed (ls e g dir))
            = ''free: 51200 b, total: 102400 b, block size: 512, writable: ''
              @ str_bool (writable d)"
      by simp
    from l(2) s(2) u show "length (printed (ls e g dir)) = 3 + length (files d)"
      by simp
  }
  {
    assume u: "cpremote_units g = Some ''kb''"
    from l(1) [of "''free: 50.0 kb, total: 100.0 kb, block size: 512, writable: ''
                    @ str_bool (writable d)"] s(3) u
    show "last (printed (ls e g dir))
            = ''free: 50.0 kb, total: 100.0 kb, block size: 512, writable: ''
              @ str_bool (writable d)"
      by simp
    from l(2) s(3) u show "length (printed (ls e g dir)) = 3 + length (files d)"
      by simp
  }
  {
    assume u: "cpremote_units g = None"
    from l(1) [of "''free: 100 None, total: 200 None, block size: 512, writable: ''
                    @ str_bool (writable d)"] s(4) u
    show "last (printed (ls e g dir))
            = ''free: 100 None, total: 200 None, block size: 512, writable: ''
              @ str_bool (writable d)"
      by simp
    from l(2) s(4) u show "length (printed (ls e g dir)) = 3 + length (files d)"
      by simp
  }
qed

lemma root_listing_times:
  "\<forall>f\<in>set (files root_listing). \<exists>t. localtime_of_ns (device answer) (modified_ns f) = Inr t"
  by (simp add: root_listing_def utc_def)

lemma listing_response_simps [simp]:
  "status_code listing_response = 200"
  "body_listing listing_response = Some root_listing"
  by (simp_all add: listing_response_def)

lemma root_listing_counts [simp]:
  "free root_listing = 100" "total root_listing = 200" "block_size root_listing = 512"
  "writable root_listing = True" "length (files root_listing) = 2"
  by (simp_all add: root_listing_def)

theorem ls_units_conversion_witness:
  "last (printed (ls (device (Inr listing_response))
                     (circuitpy\<lparr>cpremote_units := Some ''blocks''\<rparr>) ''/''))
     = ''free: 100 blocks, total: 200 blocks, block size: 512, writable: True''
   \<and> last (printed (ls (device (Inr listing_response))
                       (circuitpy\<lparr>cpremote_units := Some ''b''\<rparr>) ''/''))
     = ''free: 51200 b, total: 102400 b, block size: 512, writable: True''
   \<and> last (printed (ls (device (Inr listing_response))
                       (circuitpy\<lparr>cpremote_units := Some ''kb''\<rparr>) ''/''))
     = ''free: 50.0 kb, total: 100.0 kb, block size: 512, writable: True''
   \<and> length (printed (ls (device (Inr listing_response))
                         (circuitpy\<lparr>cpremote_units := Some ''kb''\<rparr>) ''/'')) = 5"
  using
    ls_units_conversion
      [where e = "device (Inr listing_response)" and r = listing_response and d = root_listing
         and g = "circuitpy\<lparr>cpremote_units := Some ''blocks''\<rparr>" and dir = "''/''",
       OF _ _ _ root_listing_times]
    ls_units_conversion
      [where e = "device (Inr listing_response)" and r = listing_response and d = root_listing
         and g = "circuitpy\<lparr>cpremote_units := Some ''b''\<rparr>" and dir = "''/''",
       OF _ _ _ root_listing_times]
    ls_units_conversion
      [where e = "device (Inr listing_response)" and r = listing_response and d = root_listing
         and g = "circuitpy\<lparr>cpremote_units := Some ''kb''\<rparr>" and dir = "''/''",
       OF _ _ _ root_listing_times]
  by (simp add: str_bool_def)

text \<open>
  The claim as written fails on the default: with \<open>CPREMOTE_UNITS\<close> unset and no
  \<open>--units\<close> flag, the last line of the listing does not carry the word \<open>blocks\<close>.
\<close>

theorem default_units_counterexample:
  "CPREMOTE_UNITS configured = None
   \<and> units (invoke (Ls ''/'')) = None
   \<and> last (printed (main (device (Inr listing_response)) configured (invoke (Ls ''/''))))
       = ''free: 100 None, total: 200 None, block size: 512, writable: True''"
proof -
  have m: "main (device (Inr listing_response)) configured (invoke (Ls ''/''))
             = ls (device (Inr listing_response)) circuitpy ''/''"
    by (simp add: main_def override_def configured_def invoke_def circuitpy_def)
  have s: "summary (device (Inr listing_response)) (cpremote_units circuitpy) root_listing
             = Inr ''free: 100 None, total: 200 None, block size: 512, writable: True''"
    using summary_100_200_512(4) [of root_listing "device (Inr listing_response)"]
    by (simp add: str_bool_def)
  have "last (printed (ls (device (Inr listing_response)) circuitpy ''/''))
          = ''free: 100 None, total: 200 None, block size: 512, writable: True''"
    by (rule ls_prints_summary(1)
          [where r = listing_response and d = root_listing, OF _ _ _ root_listing_times s])
       simp_all
  with m show ?thesis
    by (simp add: configured_def invoke_def)
qed

end
